theory Spec2Isabelle
  imports Main
begin

section \<open>The SPIFFE client SDK (package spiffesdk)\<close>

text \<open>
  A shallow embedding of the Go package \<^verbatim>\<open>spiffesdk\<close>: the credential cache and its
  renewal loop, the client of the headless issuance API, the transport that chooses
  between mTLS and plain HTTP by destination host, and the two HTTP middlewares.

  Go strings are byte sequences, modelled as \<^typ>\<open>string\<close>. A \<^verbatim>\<open>time.Time\<close> is
  modelled as an \<^typ>\<open>int\<close>: the nanoseconds since the zero time, so the zero value of
  \<^verbatim>\<open>time.Time\<close> is \<open>0\<close>. A \<^verbatim>\<open>time.Duration\<close> is an \<^typ>\<open>int\<close> of nanoseconds
  that \<^verbatim>\<open>Time.Sub\<close> keeps inside the 64-bit signed range by saturation.
\<close>

subsection \<open>Destination matching of the smart transport\<close>

text \<open>
  \<^verbatim>\<open>func hasSuffix(s, suffix string) bool {
      return len(s) >= len(suffix) && s[len(s)-len(suffix):] == suffix }\<close>
\<close>

definition hasSuffix :: "string \<Rightarrow> string \<Rightarrow> bool" where
  "hasSuffix s suffix =
     (length s \<ge> length suffix \<and> drop (length s - length suffix) s = suffix)"

text \<open>
  The part of a request that \<^verbatim>\<open>smartTransport.RoundTrip\<close> reads: \<^verbatim>\<open>req.URL.Host\<close> and
  \<^verbatim>\<open>req.Host\<close>.
\<close>

record outbound =
  URL_Host :: string
  Host :: string

datatype transport_choice = MTLS | Regular

text \<open>
  The first two lines of \<^verbatim>\<open>RoundTrip\<close>: \<^verbatim>\<open>host := req.URL.Host\<close>, replaced by
  \<^verbatim>\<open>req.Host\<close> when empty.
\<close>

definition request_host :: "outbound \<Rightarrow> string" where
  "request_host req = (if URL_Host req = [] then Host req else URL_Host req)"

text \<open>
  The two tests of the loop body, in the order of the source. The index \<^verbatim>\<open>domain[0]\<close> is
  read only behind the length test, as in Go's short-circuit conjunction.
\<close>

definition first_test :: "string \<Rightarrow> string \<Rightarrow> bool" where
  "first_test host domain =
     (host = domain \<or> (length domain > 0 \<and> domain ! 0 = CHR ''.'' \<and> hasSuffix host domain))"

definition second_test :: "string \<Rightarrow> string \<Rightarrow> bool" where
  "second_test host domain =
     (length domain > 1 \<and> domain ! 0 \<noteq> CHR ''.'' \<and>
      (host = domain \<or> hasSuffix host (''.'' @ domain)))"

text \<open>
  The loop \<^verbatim>\<open>for _, domain := range t.internalDomains\<close>: it returns through the mTLS
  transport at the first domain that passes one of the tests, and falls through to the
  regular transport when the list is exhausted.
\<close>

fun route :: "string list \<Rightarrow> string \<Rightarrow> transport_choice" where
  "route [] host = Regular"
| "route (domain # rest) host =
     (if first_test host domain then MTLS
      else if second_test host domain then MTLS
      else route rest host)"

record ('q, 'r) smartTransport =
  internalDomains :: "string list"
  mtlsTransport :: "'q \<Rightarrow> 'r"
  regularTransport :: "'q \<Rightarrow> 'r"

definition classify :: "string list \<Rightarrow> outbound \<Rightarrow> transport_choice" where
  "classify domains req = route domains (request_host req)"

text \<open>
  \<^verbatim>\<open>smartTransport.RoundTrip\<close>: the request is handed to the chosen round tripper and
  its answer is returned as it is. The function \<open>view\<close> reads the host fields of the
  request.
\<close>

definition smartTransport_RoundTrip ::
  "('q, 'r) smartTransport \<Rightarrow> ('q \<Rightarrow> outbound) \<Rightarrow> 'q \<Rightarrow> 'r" where
  "smartTransport_RoundTrip t view req =
     (case classify (internalDomains t) (view req) of
        MTLS \<Rightarrow> mtlsTransport t req
      | Regular \<Rightarrow> regularTransport t req)"

text \<open>What a single rule accepts, read off the two tests.\<close>

definition rule_matches :: "string \<Rightarrow> string \<Rightarrow> bool" where
  "rule_matches host domain = (first_test host domain \<or> second_test host domain)"

subsection \<open>Time\<close>

text \<open>
  \<^verbatim>\<open>Time.Sub\<close> of the Go library returns the difference of two instants as a
  \<^verbatim>\<open>Duration\<close>, replaced by the largest or the smallest \<^verbatim>\<open>Duration\<close> when it does
  not fit 64 signed bits. \<^verbatim>\<open>time.Until(t)\<close> is \<^verbatim>\<open>t.Sub(time.Now())\<close>; the clock
  reading is an argument here.
\<close>

definition maxDuration :: int where
  "maxDuration = 2 ^ 63 - 1"

definition minDuration :: int where
  "minDuration = - (2 ^ 63)"

definition time_Sub :: "int \<Rightarrow> int \<Rightarrow> int" where
  "time_Sub t u =
     (if t - u > maxDuration then maxDuration
      else if t - u < minDuration then minDuration
      else t - u)"

definition time_Until :: "int \<Rightarrow> int \<Rightarrow> int" where
  "time_Until now t = time_Sub t now"

definition Second :: int where
  "Second = 1000000000"

subsection \<open>Data of the package\<close>

record Config =
  ServiceName :: string
  SPIFFEID :: string
  ServiceType :: string
  Namespace :: string
  ServiceAccount :: string
  PodLabels :: "(string \<times> string) list"
  HeadlessAPIURL :: string
  SocketPath :: string
  TrustDomain :: string
  RenewalThreshold :: int
  CheckInterval :: int

text \<open>
  \<^verbatim>\<open>PodLabels\<close> is a Go map; the list gives its entries in the order in which the
  \<^verbatim>\<open>range\<close> loop of \<^verbatim>\<open>registerWithHeadlessAPI\<close> happens to visit them.
\<close>

record ValidationResult =
  Valid :: bool
  SPIFFEID :: string
  Subject :: string
  Issuer :: string
  NotBefore :: string
  NotAfter :: string

record SVIDResponse =
  ID :: string
  WorkloadID :: string
  SPIFFEID :: string
  X509SVID :: string
  PrivateKey :: string
  Bundle :: string
  ExpiresAt :: int
  IssuedAt :: int

text \<open>The cache of the current SVID; its mutex has no content in a sequential model.\<close>

record SVIDCache =
  SVID :: string
  PrivateKey :: string
  Bundle :: string
  ExpiresAt :: int
  IssuedAt :: int

record http_client =
  Timeout :: int

record HeadlessAPI =
  BaseURL :: string
  HTTPClient :: http_client

text \<open>The element type of the \<^verbatim>\<open>workloads\<close> array of the lookup response.\<close>

record workload =
  ID :: string
  SPIFFEID :: string

datatype authorizer = AuthorizeAny

text \<open>
  An X.509 source of the workload API is a handle (a number); a TLS configuration records
  the sources and the authorizer it was built from.
\<close>

datatype tls_config = MTLSClientConfig "nat option" "nat option" authorizer

record SpiffeSDK =
  config :: Config
  headlessAPI :: HeadlessAPI
  workloadAPI :: "nat option"
  currentSVID :: SVIDCache
  tlsConfig :: "tls_config option"
  ctx_done :: bool

subsection \<open>Errors\<close>

text \<open>
  One constructor for each \<^verbatim>\<open>fmt.Errorf\<close> of the package, carrying what the format
  string prints; an error of a library call is its message.
\<close>

datatype error =
    MarshalPayloadFailed string
  | CreateRequestFailed string
  | SendRequestFailed string
  | RegistrationStatus int string
  | GetWorkloadStatus int string
  | DecodeWorkloadFailed string
  | WorkloadNotFound string
  | CreateSVIDRequestFailed string
  | SendSVIDRequestFailed string
  | SVIDIssuanceStatus int string
  | DecodeSVIDFailed string
  | DecodeVerificationFailed string
  | X509SourceFailed string
  | RegistrationFailed error
  | InitialFetchFailed error
  | TLSSetupFailed error

subsection \<open>The world outside the package\<close>

record http_request =
  Method :: string
  URL :: string
  Header :: "(string \<times> string) list"
  ReqBody :: "string option"

record http_response =
  StatusCode :: int
  Body :: string

datatype json_value = JString string | JStrings "string list"

datatype log_line = RenewalFailedLine error | RenewedLine int

text \<open>
  The state the package changes outside its own structs: the requests handed to
  \<^verbatim>\<open>HTTPClient.Do\<close> so far, the lines printed by \<^verbatim>\<open>fmt.Printf\<close>, the number of
  attempts to open the workload API, and the number of renewal goroutines started.
\<close>

record world =
  sent :: "http_request list"
  printed :: "log_line list"
  x509_attempts :: nat
  renewal_loops :: nat

text \<open>
  The library functions and the remote service, as parameters. The answer of the service
  to a request may depend on every request sent before it. A decoder stands for
  \<^verbatim>\<open>json.NewDecoder(body).Decode(&v)\<close> at the type of \<open>v\<close>.
\<close>

record env =
  json_Marshal :: "(string \<times> json_value) list \<Rightarrow> string + string"
  url_error :: "string \<Rightarrow> string option"
  client_Do :: "http_client \<Rightarrow> http_request list \<Rightarrow> http_request \<Rightarrow> string + http_response"
  decode_workloads :: "string \<Rightarrow> string + workload list"
  decode_svid :: "string \<Rightarrow> string + SVIDResponse"
  decode_validation :: "string \<Rightarrow> string + ValidationResult"
  pem_EncodeToMemory :: "string \<Rightarrow> string \<Rightarrow> string"
  NewX509Source :: "nat \<Rightarrow> string \<Rightarrow> string + nat"

definition StatusOK :: int where "StatusOK = 200"
definition StatusCreated :: int where "StatusCreated = 201"
definition StatusUnauthorized :: int where "StatusUnauthorized = 401"

text \<open>
  \<^verbatim>\<open>http.NewRequest(method, url, body)\<close> with one of the constant methods of the
  package: it fails when the URL does not parse.
\<close>

definition NewRequest :: "env \<Rightarrow> string \<Rightarrow> string \<Rightarrow> string option \<Rightarrow> string + http_request" where
  "NewRequest e m u b =
     (case url_error e u of
        Some msg \<Rightarrow> Inl msg
      | None \<Rightarrow> Inr \<lparr>Method = m, URL = u, Header = [], ReqBody = b\<rparr>)"

definition Header_Set :: "string \<Rightarrow> string \<Rightarrow> http_request \<Rightarrow> http_request" where
  "Header_Set k v req = req\<lparr>Header := (k, v) # filter (\<lambda>kv. fst kv \<noteq> k) (Header req)\<rparr>"

definition Do :: "env \<Rightarrow> http_client \<Rightarrow> http_request \<Rightarrow> world \<Rightarrow> (string + http_response) \<times> world" where
  "Do e c req w = (client_Do e c (sent w) req, w\<lparr>sent := sent w @ [req]\<rparr>)"

subsection \<open>HeadlessAPI methods\<close>

definition RegisterAndIssueSVID ::
  "env \<Rightarrow> HeadlessAPI \<Rightarrow> (string \<times> json_value) list \<Rightarrow> world \<Rightarrow> error option \<times> world" where
  "RegisterAndIssueSVID e api payload w =
     (case json_Marshal e payload of
        Inl err \<Rightarrow> (Some (MarshalPayloadFailed err), w)
      | Inr jsonData \<Rightarrow>
        (case NewRequest e ''POST''
                (BaseURL api @ ''/spiresvc/api/v1/workloads/register-and-issue'') (Some jsonData) of
           Inl err \<Rightarrow> (Some (CreateRequestFailed err), w)
         | Inr req0 \<Rightarrow>
           (let req = Header_Set ''Content-Type'' ''application/json'' req0 in
            case Do e (HTTPClient api) req w of
              (Inl err, w') \<Rightarrow> (Some (SendRequestFailed err), w')
            | (Inr resp, w') \<Rightarrow>
                if StatusCode resp \<noteq> StatusCreated
                then (Some (RegistrationStatus (StatusCode resp) (Body resp)), w')
                else (None, w'))))"

definition lookup_url :: "HeadlessAPI \<Rightarrow> string \<Rightarrow> string" where
  "lookup_url api spiffeID = BaseURL api @ ''/spiresvc/api/v1/workloads?spiffe_id='' @ spiffeID"

definition svid_url :: "HeadlessAPI \<Rightarrow> string \<Rightarrow> string" where
  "svid_url api workloadID = BaseURL api @ ''/spiresvc/api/v1/workloads/'' @ workloadID @ ''/svid''"

text \<open>
  The two requests that \<^verbatim>\<open>GetOrRefreshSVID\<close> builds with \<^verbatim>\<open>http.NewRequest\<close>,
  as values: the lookup and the issuance request for a workload handle.
\<close>

definition lookup_request :: "HeadlessAPI \<Rightarrow> string \<Rightarrow> http_request" where
  "lookup_request api spiffeID =
     \<lparr>Method = ''GET'', URL = lookup_url api spiffeID, Header = [], ReqBody = None\<rparr>"

definition svid_request :: "HeadlessAPI \<Rightarrow> string \<Rightarrow> http_request" where
  "svid_request api workloadID =
     \<lparr>Method = ''POST'', URL = svid_url api workloadID, Header = [], ReqBody = None\<rparr>"

text \<open>The second half of \<^verbatim>\<open>GetOrRefreshSVID\<close>, from the comment \<^verbatim>\<open>// Issue new SVID\<close> on.\<close>

definition issue_new_SVID ::
  "env \<Rightarrow> HeadlessAPI \<Rightarrow> string \<Rightarrow> world \<Rightarrow> (error + SVIDResponse) \<times> world" where
  "issue_new_SVID e api workloadID w =
     (case NewRequest e ''POST'' (svid_url api workloadID) None of
        Inl err \<Rightarrow> (Inl (CreateSVIDRequestFailed err), w)
      | Inr svidReq \<Rightarrow>
        (case Do e (HTTPClient api) svidReq w of
           (Inl err, w') \<Rightarrow> (Inl (SendSVIDRequestFailed err), w')
         | (Inr svidResp, w') \<Rightarrow>
             if StatusCode svidResp \<noteq> StatusCreated
             then (Inl (SVIDIssuanceStatus (StatusCode svidResp) (Body svidResp)), w')
             else (case decode_svid e (Body svidResp) of
                     Inl err \<Rightarrow> (Inl (DecodeSVIDFailed err), w')
                   | Inr svid \<Rightarrow> (Inr svid, w'))))"

definition GetOrRefreshSVID ::
  "env \<Rightarrow> HeadlessAPI \<Rightarrow> string \<Rightarrow> world \<Rightarrow> (error + SVIDResponse) \<times> world" where
  "GetOrRefreshSVID e api spiffeID w =
     (case NewRequest e ''GET'' (lookup_url api spiffeID) None of
        Inl err \<Rightarrow> (Inl (CreateRequestFailed err), w)
      | Inr req \<Rightarrow>
        (case Do e (HTTPClient api) req w of
           (Inl err, w') \<Rightarrow> (Inl (SendRequestFailed err), w')
         | (Inr resp, w') \<Rightarrow>
             if StatusCode resp \<noteq> StatusOK
             then (Inl (GetWorkloadStatus (StatusCode resp) (Body resp)), w')
             else (case decode_workloads e (Body resp) of
                     Inl err \<Rightarrow> (Inl (DecodeWorkloadFailed err), w')
                   | Inr [] \<Rightarrow> (Inl (WorkloadNotFound spiffeID), w')
                   | Inr (first # others) \<Rightarrow> issue_new_SVID e api (workload.ID first) w')))"

definition VerifyCertificate ::
  "env \<Rightarrow> HeadlessAPI \<Rightarrow> (string \<times> json_value) list \<Rightarrow> world
     \<Rightarrow> (error + ValidationResult) \<times> world" where
  "VerifyCertificate e api payload w =
     (case json_Marshal e payload of
        Inl err \<Rightarrow> (Inl (MarshalPayloadFailed err), w)
      | Inr jsonData \<Rightarrow>
        (case NewRequest e ''POST'' (BaseURL api @ ''/api/v1/verify/certificate'') (Some jsonData) of
           Inl err \<Rightarrow> (Inl (CreateRequestFailed err), w)
         | Inr req0 \<Rightarrow>
           (let req = Header_Set ''Content-Type'' ''application/json'' req0 in
            case Do e (HTTPClient api) req w of
              (Inl err, w') \<Rightarrow> (Inl (SendRequestFailed err), w')
            | (Inr resp, w') \<Rightarrow>
                (case decode_validation e (Body resp) of
                   Inl err \<Rightarrow> (Inl (DecodeVerificationFailed err), w')
                 | Inr result \<Rightarrow> (Inr result, w')))))"

subsection \<open>The SDK\<close>

text \<open>
  \<^verbatim>\<open>initWorkloadAPI\<close>: one attempt to open the X.509 source at the configured socket.
\<close>

definition initWorkloadAPI :: "env \<Rightarrow> SpiffeSDK \<Rightarrow> world \<Rightarrow> error option \<times> SpiffeSDK \<times> world" where
  "initWorkloadAPI e s w =
     (let w' = w\<lparr>x509_attempts := Suc (x509_attempts w)\<rparr> in
      case NewX509Source e (x509_attempts w) (''unix://'' @ SocketPath (config s)) of
        Inl err \<Rightarrow> (Some (X509SourceFailed err), s, w')
      | Inr source \<Rightarrow> (None, s\<lparr>workloadAPI := Some source\<rparr>, w'))"

text \<open>The zero value \<^verbatim>\<open>&SVIDCache{}\<close>.\<close>

definition empty_SVIDCache :: SVIDCache where
  "empty_SVIDCache =
     \<lparr>SVID = [], PrivateKey = [], Bundle = [], ExpiresAt = 0, IssuedAt = 0\<rparr>"

definition NewSpiffeSDK :: "env \<Rightarrow> Config \<Rightarrow> world \<Rightarrow> (SpiffeSDK \<times> error option) \<times> world" where
  "NewSpiffeSDK e cfg w =
     (let sdk = \<lparr>config = cfg,
                 headlessAPI = \<lparr>BaseURL = HeadlessAPIURL cfg,
                                HTTPClient = \<lparr>Timeout = 10 * Second\<rparr>\<rparr>,
                 workloadAPI = None,
                 currentSVID = empty_SVIDCache,
                 tlsConfig = None,
                 ctx_done = False\<rparr>
      in case initWorkloadAPI e sdk w of (_, sdk', w') \<Rightarrow> ((sdk', None), w'))"

definition registerWithHeadlessAPI :: "env \<Rightarrow> SpiffeSDK \<Rightarrow> world \<Rightarrow> error option \<times> world" where
  "registerWithHeadlessAPI e s w =
     (let selectors = [''k8s:ns:'' @ Namespace (config s),
                       ''k8s:sa:'' @ ServiceAccount (config s)]
                      @ map (\<lambda>(key, val). ''k8s:pod-label:'' @ key @ '':'' @ val)
                            (PodLabels (config s));
          payload = [(''spiffe_id'', JString (Config.SPIFFEID (config s))),
                     (''type'', JString (ServiceType (config s))),
                     (''selectors'', JStrings selectors)]
      in RegisterAndIssueSVID e (headlessAPI s) payload w)"

definition refreshSVID :: "env \<Rightarrow> SpiffeSDK \<Rightarrow> world \<Rightarrow> error option \<times> SpiffeSDK \<times> world" where
  "refreshSVID e s w =
     (case GetOrRefreshSVID e (headlessAPI s) (Config.SPIFFEID (config s)) w of
        (Inl err, w') \<Rightarrow> (Some err, s, w')
      | (Inr svid, w') \<Rightarrow>
          (None,
           s\<lparr>currentSVID := (currentSVID s)
               \<lparr>SVID := X509SVID svid,
                SVIDCache.PrivateKey := SVIDResponse.PrivateKey svid,
                SVIDCache.Bundle := SVIDResponse.Bundle svid,
                SVIDCache.ExpiresAt := SVIDResponse.ExpiresAt svid,
                SVIDCache.IssuedAt := SVIDResponse.IssuedAt svid\<rparr>\<rparr>,
           w'))"

definition setupTLSConfig :: "SpiffeSDK \<Rightarrow> error option \<times> SpiffeSDK" where
  "setupTLSConfig s =
     (None, s\<lparr>tlsConfig := Some (MTLSClientConfig (workloadAPI s) (workloadAPI s) AuthorizeAny)\<rparr>)"

text \<open>
  \<^verbatim>\<open>Initialize\<close>. Its last step, \<^verbatim>\<open>go s.startAutoRenewal()\<close>, is counted in the world;
  the goroutine itself is \<open>startAutoRenewal\<close> below.
\<close>

definition Initialize :: "env \<Rightarrow> SpiffeSDK \<Rightarrow> world \<Rightarrow> error option \<times> SpiffeSDK \<times> world" where
  "Initialize e s w =
     (case registerWithHeadlessAPI e s w of
        (Some err, w1) \<Rightarrow> (Some (RegistrationFailed err), s, w1)
      | (None, w1) \<Rightarrow>
        (case (if workloadAPI s = None
               then (case initWorkloadAPI e s w1 of (_, s', w') \<Rightarrow> (s', w'))
               else (s, w1)) of
           (s1, w2) \<Rightarrow>
           (case refreshSVID e s1 w2 of
              (Some err, s2, w3) \<Rightarrow> (Some (InitialFetchFailed err), s2, w3)
            | (None, s2, w3) \<Rightarrow>
              (case (if workloadAPI s2 \<noteq> None then setupTLSConfig s2 else (None, s2)) of
                 (Some err, s3) \<Rightarrow> (Some (TLSSetupFailed err), s3, w3)
               | (None, s3) \<Rightarrow>
                   (None, s3, w3\<lparr>renewal_loops := Suc (renewal_loops w3)\<rparr>)))))"

definition GetCurrentSVID :: "SpiffeSDK \<Rightarrow> string" where
  "GetCurrentSVID s = SVID (currentSVID s)"

subsection \<open>The renewal loop\<close>

text \<open>
  What the \<^verbatim>\<open>select\<close> of \<^verbatim>\<open>startAutoRenewal\<close> receives: the end of the context, or a
  tick, which carries the reading of the clock that \<^verbatim>\<open>time.Until\<close> makes in that
  iteration.
\<close>

datatype event = CtxDone | Tick int

text \<open>The body of \<^verbatim>\<open>case <-ticker.C\<close>.\<close>

definition renewal_tick :: "env \<Rightarrow> int \<Rightarrow> SpiffeSDK \<Rightarrow> world \<Rightarrow> SpiffeSDK \<times> world" where
  "renewal_tick e now s w =
     (let timeToExpiry = time_Until now (SVIDCache.ExpiresAt (currentSVID s)) in
      if timeToExpiry \<le> RenewalThreshold (config s)
      then (case refreshSVID e s w of
              (Some err, s', w') \<Rightarrow> (s', w'\<lparr>printed := printed w' @ [RenewalFailedLine err]\<rparr>)
            | (None, s', w') \<Rightarrow>
                (s', w'\<lparr>printed := printed w' @
                          [RenewedLine (SVIDCache.ExpiresAt (currentSVID s'))]\<rparr>))
      else (s, w))"

text \<open>
  What a tick does with the outcome of its call of \<^verbatim>\<open>refreshSVID\<close>: it prints one line,
  the failure or the new expiry, and keeps the state the call left.
\<close>

definition report :: "error option \<times> SpiffeSDK \<times> world \<Rightarrow> SpiffeSDK \<times> world" where
  "report outcome =
     (case outcome of (res, s', w') \<Rightarrow>
        (s', w'\<lparr>printed := printed w' @
                [case res of Some err \<Rightarrow> RenewalFailedLine err
                 | None \<Rightarrow> RenewedLine (SVIDCache.ExpiresAt (currentSVID s'))]\<rparr>))"

text \<open>
  How a run of \<^verbatim>\<open>startAutoRenewal\<close> stands: it has returned, it is blocked in the
  \<^verbatim>\<open>select\<close>, or it has panicked.
\<close>

datatype loop_status = Returned | Waiting | Panicked

text \<open>
  The loop \<^verbatim>\<open>for { select { ... } }\<close> over the events that arrive. It returns at the end
  of the context and at no other place; when the events are used up it is blocked in the
  \<^verbatim>\<open>select\<close>.
\<close>

fun renewal_loop :: "env \<Rightarrow> event list \<Rightarrow> SpiffeSDK \<Rightarrow> world \<Rightarrow> loop_status \<times> SpiffeSDK \<times> world" where
  "renewal_loop e [] s w = (Waiting, s, w)"
| "renewal_loop e (CtxDone # evs) s w = (Returned, s, w)"
| "renewal_loop e (Tick now # evs) s w =
     (case renewal_tick e now s w of (s', w') \<Rightarrow> renewal_loop e evs s' w')"

text \<open>
  \<^verbatim>\<open>startAutoRenewal\<close>: \<^verbatim>\<open>time.NewTicker(s.config.CheckInterval)\<close> panics when the
  interval is not positive, before any event is received; otherwise the loop runs on the
  events of the ticker and of the context.
\<close>

definition startAutoRenewal :: "env \<Rightarrow> event list \<Rightarrow> SpiffeSDK \<Rightarrow> world \<Rightarrow> loop_status \<times> SpiffeSDK \<times> world" where
  "startAutoRenewal e evs s w =
     (if CheckInterval (config s) \<le> 0 then (Panicked, s, w)
      else renewal_loop e evs s w)"

subsection \<open>Validation of incoming requests\<close>

record certificate =
  Raw :: string

record ConnectionState =
  PeerCertificates :: "certificate list"

text \<open>
  The part of an incoming \<^verbatim>\<open>*http.Request\<close> that the middleware reads or replaces:
  the TLS state (\<open>None\<close> for \<^verbatim>\<open>nil\<close>) and the context, a chain of key-value pairs with
  the newest binding first. Any other field travels in the extension of the record.
\<close>

record inbound =
  TLS :: "ConnectionState option"
  Context :: "(string \<times> string) list"

definition Context_Value :: "'a inbound_scheme \<Rightarrow> string \<Rightarrow> string option" where
  "Context_Value r k = map_of (Context r) k"

definition certToPEM :: "env \<Rightarrow> certificate \<Rightarrow> string" where
  "certToPEM e cert = pem_EncodeToMemory e ''CERTIFICATE'' (Raw cert)"

definition ValidateIncomingSVID ::
  "env \<Rightarrow> SpiffeSDK \<Rightarrow> string \<Rightarrow> world \<Rightarrow> (error + ValidationResult) \<times> world" where
  "ValidateIncomingSVID e s cert w =
     VerifyCertificate e (headlessAPI s) [(''certificate'', JString cert)] w"

text \<open>
  The two ways out of the handler function that the middleware returns:
  \<^verbatim>\<open>http.Error(w, msg, code); return\<close>, and \<^verbatim>\<open>next.ServeHTTP(w, r)\<close> with the request
  it passes on.
\<close>

datatype 'a exit = Reject string int | Serve "'a inbound_scheme"

definition middleware_exit :: "env \<Rightarrow> SpiffeSDK \<Rightarrow> 'a inbound_scheme \<Rightarrow> world \<Rightarrow> 'a exit \<times> world" where
  "middleware_exit e s r w =
     (case TLS r of
        None \<Rightarrow> (Serve r, w)
      | Some cs \<Rightarrow>
        (case PeerCertificates cs of
           [] \<Rightarrow> (Serve r, w)
         | clientCert # _ \<Rightarrow>
           (let certPEM = certToPEM e clientCert in
            case ValidateIncomingSVID e s certPEM w of
              (Inl err, w') \<Rightarrow> (Reject ''Invalid client certificate'' StatusUnauthorized, w')
            | (Inr result, w') \<Rightarrow>
                if \<not> Valid result
                then (Reject ''Invalid client certificate'' StatusUnauthorized, w')
                else (Serve (r\<lparr>Context := (''spiffe_id'', ValidationResult.SPIFFEID result)
                                          # Context r\<rparr>), w'))))"

text \<open>
  \<^verbatim>\<open>IncomingValidationMiddleware(next)\<close>, applied to a request, a response writer and the
  world. \<open>http_Error\<close> is the library function that writes the error response.
\<close>

definition IncomingValidationMiddleware ::
  "env \<Rightarrow> SpiffeSDK \<Rightarrow> (string \<Rightarrow> int \<Rightarrow> 'rw \<Rightarrow> 'rw)
     \<Rightarrow> ('a inbound_scheme \<Rightarrow> 'rw \<Rightarrow> world \<Rightarrow> 'rw \<times> world)
     \<Rightarrow> 'a inbound_scheme \<Rightarrow> 'rw \<Rightarrow> world \<Rightarrow> 'rw \<times> world" where
  "IncomingValidationMiddleware e s http_Error next r rw w =
     (case middleware_exit e s r w of
        (Reject msg code, w') \<Rightarrow> (http_Error msg code rw, w')
      | (Serve r', w') \<Rightarrow> next r' rw w')"

subsection \<open>Outgoing requests, in a store\<close>

text \<open>
  \<^verbatim>\<open>spiffeMTLSTransport.RoundTrip\<close> receives a pointer to a request, and a request
  holds references of its own: its URL, its header map and its body. Whether the
  caller's request can change depends on which of these the clone shares, so this part
  of the model has an explicit store of objects. \<^verbatim>\<open>Request.Clone\<close> of the Go library
  copies the struct, gives the copy a fresh URL and a fresh header map with the same
  contents, and leaves the body shared. The other maps and slices of a request
  (trailer, form values, transfer encodings) are copied as the header map is, and are
  left out here.
\<close>

type_synonym addr = nat

record request_obj =
  rMethod :: string
  rURL :: "addr option"
  rHeader :: "addr option"
  rBody :: "addr option"
  rHost :: string
  rCtx :: "(string \<times> string) list"

datatype object =
    RequestObj request_obj
  | URLObj string
  | HeaderObj "(string \<times> string list) list"
  | BodyObj string bool

record store =
  objs :: "addr \<Rightarrow> object option"
  next_addr :: addr





text \<open>A round tripper gets the address of a request and may change the store.\<close>

type_synonym 'r round_tripper = "addr \<Rightarrow> store \<Rightarrow> 'r \<times> store"

record 'r spiffeMTLSTransport =
  sdk :: SpiffeSDK
  transport :: "'r round_tripper option"










subsection \<open>Sample values\<close>

text \<open>
  A configuration as in the integration test of the repository, and environments whose
  remote service answers from a fixed list, one answer for each request in order, and
  refuses the connection afterwards. The encoders and decoders of these environments
  are stand-ins that know the sample texts only: they are inputs on which the functions
  above are run, not models of the JSON and PEM functions of the library.
\<close>

definition world0 :: world where
  "world0 = \<lparr>sent = [], printed = [], x509_attempts = 0, renewal_loops = 0\<rparr>"

definition sample_config :: Config where
  "sample_config =
     \<lparr>ServiceName = ''test-customer-service'',
      Config.SPIFFEID = ''spiffe://authsec.dev/test-customer-service'',
      ServiceType = ''application'',
      Namespace = ''authsec'',
      ServiceAccount = ''authsec-sa'',
      PodLabels = [(''app'', ''test-customer-service'')],
      HeadlessAPIURL = ''http://localhost:7475'',
      SocketPath = ''/run/spire/sockets/agent.sock'',
      TrustDomain = ''authsec.dev'',
      RenewalThreshold = 5 * 60 * Second,
      CheckInterval = 60 * Second\<rparr>"

definition sample_result :: "bool \<Rightarrow> string \<Rightarrow> ValidationResult" where
  "sample_result v i =
     \<lparr>Valid = v, ValidationResult.SPIFFEID = i, Subject = [], Issuer = [],
      NotBefore = [], NotAfter = []\<rparr>"

definition sample_svid :: SVIDResponse where
  "sample_svid =
     \<lparr>SVIDResponse.ID = ''svid-1'', WorkloadID = ''w-1'',
      SVIDResponse.SPIFFEID = ''spiffe://authsec.dev/test-customer-service'',
      X509SVID = ''CERT'', SVIDResponse.PrivateKey = ''KEY'', SVIDResponse.Bundle = ''BUNDLE'',
      SVIDResponse.ExpiresAt = 63902826000 * Second,
      SVIDResponse.IssuedAt = 63902822400 * Second\<rparr>"

text \<open>What the decoder leaves in the struct when the response names no timestamp.\<close>

definition undated_svid :: SVIDResponse where
  "undated_svid =
     \<lparr>SVIDResponse.ID = [], WorkloadID = [], SVIDResponse.SPIFFEID = [],
      X509SVID = ''CERT'', SVIDResponse.PrivateKey = [], SVIDResponse.Bundle = [],
      SVIDResponse.ExpiresAt = 0, SVIDResponse.IssuedAt = 0\<rparr>"

definition scripted :: "(string + http_response) list \<Rightarrow> env" where
  \<open>scripted answers =
     \<lparr>json_Marshal = (\<lambda>payload. Inr ''{}''),
      url_error = (\<lambda>u. None),
      client_Do = (\<lambda>c history req.
         if length history < length answers then answers ! length history
         else Inl ''connection refused''),
      decode_workloads = (\<lambda>b.
         if b = ''{"workloads":[{"id":"w-1"}]}''
         then Inr [\<lparr>workload.ID = ''w-1'', workload.SPIFFEID = []\<rparr>]
         else if b = ''{"workloads":[]}'' then Inr []
         else Inl ''invalid character''),
      decode_svid = (\<lambda>b.
         if b = ''{"id":"svid-1","workload_id":"w-1","spiffe_id":"spiffe://authsec.dev/test-customer-service","x509_svid":"CERT","private_key":"KEY","bundle":"BUNDLE","expires_at":"2026-01-01T01:00:00Z","issued_at":"2026-01-01T00:00:00Z"}''
         then Inr sample_svid
         else if b = ''{"x509_svid":"CERT"}'' then Inr undated_svid
         else Inl ''invalid character''),
      decode_validation = (\<lambda>b.
         if b = ''{"valid":true,"spiffe_id":"spiffe://authsec.dev/peer"}''
         then Inr (sample_result True ''spiffe://authsec.dev/peer'')
         else if b = ''{"error":"internal error"}'' then Inr (sample_result False [])
         else Inl ''invalid character''),
      pem_EncodeToMemory = (\<lambda>t bytes. ''-----BEGIN '' @ t @ ''-----'' @ bytes),
      NewX509Source = (\<lambda>n addr. Inl ''no agent'')\<rparr>\<close>

definition env_valid :: env where
  \<open>env_valid = scripted
     [Inr \<lparr>StatusCode = 200,
           Body = ''{"valid":true,"spiffe_id":"spiffe://authsec.dev/peer"}''\<rparr>]\<close>

definition env_down :: env where
  "env_down = scripted []"

definition env_issuing :: env where
  \<open>env_issuing = scripted
     [Inr \<lparr>StatusCode = 200, Body = ''{"workloads":[{"id":"w-1"}]}''\<rparr>,
      Inr \<lparr>StatusCode = 201,
           Body = ''{"id":"svid-1","workload_id":"w-1","spiffe_id":"spiffe://authsec.dev/test-customer-service","x509_svid":"CERT","private_key":"KEY","bundle":"BUNDLE","expires_at":"2026-01-01T01:00:00Z","issued_at":"2026-01-01T00:00:00Z"}''\<rparr>]\<close>

definition env_undated :: env where
  \<open>env_undated = scripted
     [Inr \<lparr>StatusCode = 200, Body = ''{"workloads":[{"id":"w-1"}]}''\<rparr>,
      Inr \<lparr>StatusCode = 201, Body = ''{"x509_svid":"CERT"}''\<rparr>]\<close>

definition sample_sdk :: SpiffeSDK where
  "sample_sdk = fst (fst (NewSpiffeSDK env_down sample_config world0))"

definition renewed_sdk :: SpiffeSDK where
  "renewed_sdk = fst (snd (refreshSVID env_issuing sample_sdk world0))"

text \<open>The first instant of the year 2026, counted from the zero time.\<close>

definition now0 :: int where
  "now0 = 63902822400 * Second"

definition sample_inbound :: inbound where
  "sample_inbound = \<lparr>TLS = Some \<lparr>PeerCertificates = [\<lparr>Raw = ''DER''\<rparr>]\<rparr>, Context = []\<rparr>"

definition verify_request :: http_request where
  "verify_request =
     \<lparr>Method = ''POST'', URL = ''http://localhost:7475/api/v1/verify/certificate'',
      Header = [(''Content-Type'', ''application/json'')], ReqBody = Some ''{}''\<rparr>"

definition register_request :: http_request where
  "register_request =
     \<lparr>Method = ''POST'',
      URL = ''http://localhost:7475/spiresvc/api/v1/workloads/register-and-issue'',
      Header = [(''Content-Type'', ''application/json'')], ReqBody = Some ''{}''\<rparr>"





section \<open>Properties\<close>

subsection \<open>Routing\<close>

lemma route_MTLS_iff: "route domains host = MTLS \<longleftrightarrow> (\<exists>d \<in> set domains. rule_matches host d)"
  by (induction domains) (auto simp: rule_matches_def)

lemma route_first_match:
  "route (pre @ d # post) host = (if \<exists>p \<in> set pre. rule_matches host p then MTLS
     else if rule_matches host d then MTLS else route post host)"
  by (induction pre) (auto simp: rule_matches_def)

lemma smartTransport_RoundTrip_iff:
  "smartTransport_RoundTrip t view q =
     (if \<exists>d \<in> set (internalDomains t). rule_matches (request_host (view q)) d
      then mtlsTransport t q else regularTransport t q)"
proof (cases "route (internalDomains t) (request_host (view q))")
  case MTLS
  then have "\<exists>d \<in> set (internalDomains t). rule_matches (request_host (view q)) d"
    by (simp add: route_MTLS_iff)
  with MTLS show ?thesis
    by (simp add: smartTransport_RoundTrip_def classify_def)
next
  case Regular
  then have "route (internalDomains t) (request_host (view q)) \<noteq> MTLS" by simp
  then have "\<not> (\<exists>d \<in> set (internalDomains t). rule_matches (request_host (view q)) d)"
    by (simp add: route_MTLS_iff)
  with Regular show ?thesis
    by (simp add: smartTransport_RoundTrip_def classify_def)
qed

text \<open>
  Claim C3. The classification is a function of the host and the rule list alone: a
  request goes to the mutually authenticated transport exactly when some rule of the
  list matches its host, the loop stopping at the first such rule, and
  \<^verbatim>\<open>RoundTrip\<close> returns what the mTLS round tripper answers in that case and what the
  regular round tripper answers in every other. With the rules \<open>.svc.cluster.local\<close> and
  \<open>authsec\<close>, whatever the two round trippers are: the host
  \<open>a.authsec.svc.cluster.local\<close> is matched by the dot-prefixed suffix rule and its
  request is handed to the mTLS round tripper; the host \<open>payment-service.authsec\<close> is not
  matched by the first rule, is matched by the bare rule, and its request is handed to
  the mTLS round tripper; the host \<open>external.example.com\<close> is matched by neither and its
  request is handed to the regular round tripper.
\<close>

theorem C3_router_classification:
  "(classify domains req = MTLS \<longleftrightarrow> (\<exists>d \<in> set domains. rule_matches (request_host req) d))
   \<and> smartTransport_RoundTrip t view q =
       (if \<exists>d \<in> set (internalDomains t). rule_matches (request_host (view q)) d
        then mtlsTransport t q else regularTransport t q)
   \<and> classify [''.svc.cluster.local'', ''authsec'']
      \<lparr>URL_Host = ''a.authsec.svc.cluster.local'', Host = ''''\<rparr> = MTLS
   \<and> first_test ''a.authsec.svc.cluster.local'' ''.svc.cluster.local''
   \<and> classify [''.svc.cluster.local'', ''authsec'']
      \<lparr>URL_Host = ''payment-service.authsec'', Host = ''''\<rparr> = MTLS
   \<and> \<not> rule_matches ''payment-service.authsec'' ''.svc.cluster.local''
   \<and> second_test ''payment-service.authsec'' ''authsec''
   \<and> classify [''.svc.cluster.local'', ''authsec'']
      \<lparr>URL_Host = ''external.example.com'', Host = ''''\<rparr> = Regular
   \<and> \<not> rule_matches ''external.example.com'' ''.svc.cluster.local''
   \<and> \<not> rule_matches ''external.example.com'' ''authsec''
   \<and> smartTransport_RoundTrip
        \<lparr>internalDomains = [''.svc.cluster.local'', ''authsec''],
         mtlsTransport = mtls, regularTransport = plain\<rparr> id
        \<lparr>URL_Host = ''a.authsec.svc.cluster.local'', Host = h\<rparr>
       = mtls \<lparr>URL_Host = ''a.authsec.svc.cluster.local'', Host = h\<rparr>
   \<and> smartTransport_RoundTrip
        \<lparr>internalDomains = [''.svc.cluster.local'', ''authsec''],
         mtlsTransport = mtls, regularTransport = plain\<rparr> id
        \<lparr>URL_Host = ''payment-service.authsec'', Host = h\<rparr>
       = mtls \<lparr>URL_Host = ''payment-service.authsec'', Host = h\<rparr>
   \<and> smartTransport_RoundTrip
        \<lparr>internalDomains = [''.svc.cluster.local'', ''authsec''],
         mtlsTransport = mtls, regularTransport = plain\<rparr> id
        \<lparr>URL_Host = ''external.example.com'', Host = h\<rparr>
       = plain \<lparr>URL_Host = ''external.example.com'', Host = h\<rparr>"
proof -
  have general: "classify domains req = MTLS \<longleftrightarrow>
      (\<exists>d \<in> set domains. rule_matches (request_host req) d)"
    by (simp add: classify_def route_MTLS_iff)
  have dispatch: "smartTransport_RoundTrip t view q =
       (if \<exists>d \<in> set (internalDomains t). rule_matches (request_host (view q)) d
        then mtlsTransport t q else regularTransport t q)"
    by (rule smartTransport_RoundTrip_iff)
  have concrete: "classify [''.svc.cluster.local'', ''authsec'']
      \<lparr>URL_Host = ''a.authsec.svc.cluster.local'', Host = ''''\<rparr> = MTLS
   \<and> first_test ''a.authsec.svc.cluster.local'' ''.svc.cluster.local''
   \<and> classify [''.svc.cluster.local'', ''authsec'']
      \<lparr>URL_Host = ''payment-service.authsec'', Host = ''''\<rparr> = MTLS
   \<and> \<not> rule_matches ''payment-service.authsec'' ''.svc.cluster.local''
   \<and> second_test ''payment-service.authsec'' ''authsec''
   \<and> classify [''.svc.cluster.local'', ''authsec'']
      \<lparr>URL_Host = ''external.example.com'', Host = ''''\<rparr> = Regular
   \<and> \<not> rule_matches ''external.example.com'' ''.svc.cluster.local''
   \<and> \<not> rule_matches ''external.example.com'' ''authsec''"
    by (simp add: classify_def request_host_def first_test_def second_test_def
        rule_matches_def hasSuffix_def)
  have sent_on: "smartTransport_RoundTrip
        \<lparr>internalDomains = [''.svc.cluster.local'', ''authsec''],
         mtlsTransport = mtls, regularTransport = plain\<rparr> id
        \<lparr>URL_Host = ''a.authsec.svc.cluster.local'', Host = h\<rparr>
       = mtls \<lparr>URL_Host = ''a.authsec.svc.cluster.local'', Host = h\<rparr>
   \<and> smartTransport_RoundTrip
        \<lparr>internalDomains = [''.svc.cluster.local'', ''authsec''],
         mtlsTransport = mtls, regularTransport = plain\<rparr> id
        \<lparr>URL_Host = ''payment-service.authsec'', Host = h\<rparr>
       = mtls \<lparr>URL_Host = ''payment-service.authsec'', Host = h\<rparr>
   \<and> smartTransport_RoundTrip
        \<lparr>internalDomains = [''.svc.cluster.local'', ''authsec''],
         mtlsTransport = mtls, regularTransport = plain\<rparr> id
        \<lparr>URL_Host = ''external.example.com'', Host = h\<rparr>
       = plain \<lparr>URL_Host = ''external.example.com'', Host = h\<rparr>"
    by (simp add: smartTransport_RoundTrip_def classify_def request_host_def first_test_def
        second_test_def hasSuffix_def)
  from general dispatch concrete sent_on show ?thesis by blast
qed

text \<open>
  With two round trippers that answer by their names: the two internal hosts are
  answered by the mTLS one, the external host by the regular one, and a request whose
  URL has no host, for which the \<^verbatim>\<open>Host\<close> field is read, by the mTLS one.
\<close>

theorem C3_router_classification_witness:
  "smartTransport_RoundTrip
        \<lparr>internalDomains = [''.svc.cluster.local'', ''authsec''],
         mtlsTransport = (\<lambda>_. ''mtls''), regularTransport = (\<lambda>_. ''plain'')\<rparr> id
        \<lparr>URL_Host = ''a.authsec.svc.cluster.local'', Host = ''''\<rparr> = ''mtls''
   \<and> smartTransport_RoundTrip
        \<lparr>internalDomains = [''.svc.cluster.local'', ''authsec''],
         mtlsTransport = (\<lambda>_. ''mtls''), regularTransport = (\<lambda>_. ''plain'')\<rparr> id
        \<lparr>URL_Host = ''payment-service.authsec'', Host = ''''\<rparr> = ''mtls''
   \<and> smartTransport_RoundTrip
        \<lparr>internalDomains = [''.svc.cluster.local'', ''authsec''],
         mtlsTransport = (\<lambda>_. ''mtls''), regularTransport = (\<lambda>_. ''plain'')\<rparr> id
        \<lparr>URL_Host = ''external.example.com'', Host = ''''\<rparr> = ''plain''
   \<and> rule_matches (request_host \<lparr>URL_Host = '''', Host = ''payment-service.authsec''\<rparr>) ''authsec''
   \<and> classify [''.svc.cluster.local'', ''authsec'']
        \<lparr>URL_Host = '''', Host = ''payment-service.authsec''\<rparr> = MTLS
   \<and> smartTransport_RoundTrip
        \<lparr>internalDomains = [''.svc.cluster.local'', ''authsec''],
         mtlsTransport = (\<lambda>_. ''mtls''), regularTransport = (\<lambda>_. ''plain'')\<rparr> id
        \<lparr>URL_Host = '''', Host = ''payment-service.authsec''\<rparr> = ''mtls''"
proof -
  note c3 = C3_router_classification [where domains = "[''.svc.cluster.local'', ''authsec'']"
      and req = "\<lparr>URL_Host = '''', Host = ''payment-service.authsec''\<rparr>"
      and t = "\<lparr>internalDomains = [''.svc.cluster.local'', ''authsec''],
         mtlsTransport = (\<lambda>_. ''mtls''), regularTransport = (\<lambda>_. ''plain'')\<rparr>"
      and view = id and q = "\<lparr>URL_Host = '''', Host = ''payment-service.authsec''\<rparr>"
      and mtls = "\<lambda>_. ''mtls''" and plain = "\<lambda>_. ''plain''" and h = "''''"]
  have m: "rule_matches (request_host \<lparr>URL_Host = '''', Host = ''payment-service.authsec''\<rparr>)
      ''authsec''"
    by (simp add: request_host_def rule_matches_def second_test_def hasSuffix_def)
  then have ex: "\<exists>d \<in> set [''.svc.cluster.local'', ''authsec''].
         rule_matches (request_host \<lparr>URL_Host = '''', Host = ''payment-service.authsec''\<rparr>) d"
    by simp
  from c3 ex have c: "classify [''.svc.cluster.local'', ''authsec'']
        \<lparr>URL_Host = '''', Host = ''payment-service.authsec''\<rparr> = MTLS"
    by blast
  from c3 ex have d: "smartTransport_RoundTrip
        \<lparr>internalDomains = [''.svc.cluster.local'', ''authsec''],
         mtlsTransport = (\<lambda>_. ''mtls''), regularTransport = (\<lambda>_. ''plain'')\<rparr> id
        \<lparr>URL_Host = '''', Host = ''payment-service.authsec''\<rparr> = ''mtls''"
    by simp
  from c3 m c d show ?thesis by simp
qed

subsection \<open>The headless API\<close>

lemma issue_new_SVID_Inr:
  "issue_new_SVID e api wid w = (Inr svid, w') \<Longrightarrow>
   \<exists>svidResp. client_Do e (HTTPClient api) (sent w) (svid_request api wid) = Inr svidResp
     \<and> StatusCode svidResp = 201 \<and> decode_svid e (Body svidResp) = Inr svid
     \<and> w' = w\<lparr>sent := sent w @ [svid_request api wid]\<rparr>"
  by (auto simp: issue_new_SVID_def NewRequest_def Do_def svid_request_def StatusCreated_def
      split: option.splits sum.splits if_splits)

lemma GetOrRefreshSVID_sent:
  "\<exists>new. sent (snd (GetOrRefreshSVID e api spiffeID w)) = sent w @ new \<and>
     (new = [] \<or> new = [lookup_request api spiffeID]
      \<or> (\<exists>wid. new = [lookup_request api spiffeID, svid_request api wid]))"
  by (auto simp: GetOrRefreshSVID_def issue_new_SVID_def NewRequest_def Do_def
      lookup_request_def svid_request_def
      split: option.splits sum.splits if_splits list.splits)

lemma RegisterAndIssueSVID_success:
  "RegisterAndIssueSVID e api payload w = (None, w') \<Longrightarrow>
   \<exists>req resp. client_Do e (HTTPClient api) (sent w) req = Inr resp \<and> StatusCode resp = 201
     \<and> w' = w\<lparr>sent := sent w @ [req]\<rparr>"
  by (auto simp: RegisterAndIssueSVID_def NewRequest_def Do_def Let_def StatusCreated_def
      split: sum.splits option.splits if_splits)

text \<open>
  \<^verbatim>\<open>VerifyCertificate\<close> never reads the status code: changing the code of every answer
  changes nothing of what it returns.
\<close>

lemma VerifyCertificate_status_irrelevant:
  "VerifyCertificate
     (e\<lparr>client_Do := \<lambda>c h q. map_sum id (\<lambda>resp. resp\<lparr>StatusCode := code\<rparr>) (client_Do e c h q)\<rparr>)
     api payload w
   = VerifyCertificate e api payload w"
  by (auto simp: VerifyCertificate_def NewRequest_def Do_def Let_def
      split: sum.splits option.splits)

lemma sample_sdk_eq:
  "sample_sdk = \<lparr>config = sample_config,
                 headlessAPI = \<lparr>BaseURL = ''http://localhost:7475'',
                                HTTPClient = \<lparr>Timeout = 10000000000\<rparr>\<rparr>,
                 workloadAPI = None,
                 currentSVID = empty_SVIDCache,
                 tlsConfig = None,
                 ctx_done = False\<rparr>"
  by (simp add: sample_sdk_def NewSpiffeSDK_def initWorkloadAPI_def env_down_def scripted_def
      sample_config_def Second_def)

lemma get_issuing:
  "GetOrRefreshSVID env_issuing (headlessAPI sample_sdk) (Config.SPIFFEID (config sample_sdk)) world0
     = (Inr sample_svid,
        world0\<lparr>sent := [lookup_request (headlessAPI sample_sdk) (Config.SPIFFEID (config sample_sdk)),
                        svid_request (headlessAPI sample_sdk) ''w-1'']\<rparr>)"
  by (simp add: GetOrRefreshSVID_def issue_new_SVID_def sample_sdk_eq scripted_def env_issuing_def
      NewRequest_def Do_def world0_def lookup_request_def svid_request_def lookup_url_def
      svid_url_def StatusOK_def StatusCreated_def sample_config_def)

text \<open>
  Claim C2, evaluated where it fails. The claim says that every operation of the client
  turns a response with a status code other than its success code into an error, and
  that \<^verbatim>\<open>VerifyCertificate\<close> in particular returns an error whenever the status is not
  200. On an answer with status 500 whose body decodes, \<^verbatim>\<open>VerifyCertificate\<close> returns
  the decoded result and no error: an invalid result for an error body, and a valid
  result if the body says so. \<^verbatim>\<open>RegisterAndIssueSVID\<close> on the same answer returns the
  error that carries the status.
\<close>

theorem C2_VerifyCertificate_ignores_status:
  \<open>VerifyCertificate
      (scripted [Inr \<lparr>StatusCode = 500, Body = ''{"error":"internal error"}''\<rparr>])
      (headlessAPI sample_sdk) [(''certificate'', JString ''PEM'')] world0
     = (Inr (sample_result False []), world0\<lparr>sent := [verify_request]\<rparr>)
   \<and> VerifyCertificate
      (scripted [Inr \<lparr>StatusCode = 500,
                      Body = ''{"valid":true,"spiffe_id":"spiffe://authsec.dev/peer"}''\<rparr>])
      (headlessAPI sample_sdk) [(''certificate'', JString ''PEM'')] world0
     = (Inr (sample_result True ''spiffe://authsec.dev/peer''),
        world0\<lparr>sent := [verify_request]\<rparr>)
   \<and> RegisterAndIssueSVID
      (scripted [Inr \<lparr>StatusCode = 500, Body = ''{"error":"internal error"}''\<rparr>])
      (headlessAPI sample_sdk) [] world0
     = (Some (RegistrationStatus 500 ''{"error":"internal error"}''),
        world0\<lparr>sent := [register_request]\<rparr>)\<close>
  by (simp add: VerifyCertificate_def RegisterAndIssueSVID_def sample_sdk_eq scripted_def
      NewRequest_def Header_Set_def Do_def world0_def verify_request_def register_request_def
      StatusCreated_def)

text \<open>
  Claim C10. Whenever \<^verbatim>\<open>GetOrRefreshSVID\<close> succeeds, it has sent exactly two requests:
  the lookup, answered with status 200 and a non-empty list of workloads, and then the
  issuance request for the handle of the first workload of that list, answered with
  status 201; and what it returns is the decoding of the body of that second answer. No
  cache is among its arguments: the credential it returns was issued by this call.
\<close>

theorem C10_success_issues_new_SVID:
  "GetOrRefreshSVID e api spiffeID w = (Inr svid, w') \<Longrightarrow>
   \<exists>lookupResp first others svidResp.
     client_Do e (HTTPClient api) (sent w) (lookup_request api spiffeID) = Inr lookupResp
     \<and> StatusCode lookupResp = 200
     \<and> decode_workloads e (Body lookupResp) = Inr (first # others)
     \<and> client_Do e (HTTPClient api) (sent w @ [lookup_request api spiffeID])
          (svid_request api (workload.ID first)) = Inr svidResp
     \<and> StatusCode svidResp = 201
     \<and> decode_svid e (Body svidResp) = Inr svid
     \<and> sent w' = sent w @ [lookup_request api spiffeID, svid_request api (workload.ID first)]"
  by (auto simp: GetOrRefreshSVID_def NewRequest_def Do_def lookup_request_def StatusOK_def
      split: option.splits sum.splits if_splits list.splits dest!: issue_new_SVID_Inr)

text \<open>
  At the sample service: the lookup names the workload \<open>w-1\<close>, the issuance request for
  \<open>w-1\<close> follows, and the credential of its answer is returned.
\<close>

theorem C10_success_issues_new_SVID_witness:
  \<open>GetOrRefreshSVID env_issuing (headlessAPI sample_sdk) (Config.SPIFFEID (config sample_sdk)) world0
     = (Inr sample_svid,
        world0\<lparr>sent := [lookup_request (headlessAPI sample_sdk) (Config.SPIFFEID (config sample_sdk)),
                        svid_request (headlessAPI sample_sdk) ''w-1'']\<rparr>)
   \<and> decode_svid env_issuing
       ''{"id":"svid-1","workload_id":"w-1","spiffe_id":"spiffe://authsec.dev/test-customer-service","x509_svid":"CERT","private_key":"KEY","bundle":"BUNDLE","expires_at":"2026-01-01T01:00:00Z","issued_at":"2026-01-01T00:00:00Z"}''
       = Inr sample_svid\<close>
  using C10_success_issues_new_SVID [OF get_issuing] get_issuing
  by (simp add: env_issuing_def scripted_def)

subsection \<open>The credential cache and its renewal\<close>

lemma refreshSVID_sent:
  "\<exists>new. sent (snd (snd (refreshSVID e s w))) = sent w @ new \<and>
     (new = [] \<or> new = [lookup_request (headlessAPI s) (Config.SPIFFEID (config s))]
      \<or> (\<exists>wid. new = [lookup_request (headlessAPI s) (Config.SPIFFEID (config s)),
                        svid_request (headlessAPI s) wid]))"
proof -
  obtain res w' where
    g: "GetOrRefreshSVID e (headlessAPI s) (Config.SPIFFEID (config s)) w = (res, w')"
    by (cases "GetOrRefreshSVID e (headlessAPI s) (Config.SPIFFEID (config s)) w")
  have "snd (snd (refreshSVID e s w)) = w'"
    using g by (cases res) (simp_all add: refreshSVID_def)
  with GetOrRefreshSVID_sent [of e "headlessAPI s" "Config.SPIFFEID (config s)" w] g
  show ?thesis by simp
qed

lemma refreshSVID_printed: "printed (snd (snd (refreshSVID e s w))) = printed w"
  by (auto simp: refreshSVID_def GetOrRefreshSVID_def issue_new_SVID_def NewRequest_def Do_def
      split: option.splits sum.splits if_splits list.splits prod.splits)

lemma refreshSVID_error_keeps: "refreshSVID e s w = (Some err, s', w') \<Longrightarrow> s' = s"
  by (auto simp: refreshSVID_def split: sum.splits prod.splits)

lemma renewal_tick_due:
  "time_Until now (SVIDCache.ExpiresAt (currentSVID s)) \<le> RenewalThreshold (config s) \<Longrightarrow>
   renewal_tick e now s w = report (refreshSVID e s w)"
  by (auto simp: renewal_tick_def report_def split: prod.splits option.splits)

lemma renewal_tick_not_due:
  "\<not> time_Until now (SVIDCache.ExpiresAt (currentSVID s)) \<le> RenewalThreshold (config s) \<Longrightarrow>
   renewal_tick e now s w = (s, w)"
  by (simp add: renewal_tick_def)

lemma report_sent: "sent (snd (report x)) = sent (snd (snd x))"
  by (cases x) (simp add: report_def)

lemma report_printed: "length (printed (snd (report x))) = Suc (length (printed (snd (snd x))))"
  by (cases x) (simp add: report_def)

lemma renewal_loop_status:
  "fst (renewal_loop e evs s w) = (if CtxDone \<in> set evs then Returned else Waiting)"
proof (induction e evs s w rule: renewal_loop.induct)
  case (3 e now evs s w)
  then show ?case by (cases "renewal_tick e now s w") simp
qed simp_all

text \<open>
  Below the largest duration, comparing the saturated difference with a threshold is
  comparing the exact difference with it.
\<close>

lemma startAutoRenewal_ticking:
  "0 < CheckInterval (config s) \<Longrightarrow> startAutoRenewal e evs s w = renewal_loop e evs s w"
  by (simp add: startAutoRenewal_def)

lemma refreshSVID_config: "config (fst (snd (refreshSVID e s w))) = config s"
  by (auto simp: refreshSVID_def split: sum.splits prod.splits)

lemma renewal_tick_config: "config (fst (renewal_tick e now s w)) = config s"
proof (cases "refreshSVID e s w")
  case (fields res s' w')
  with refreshSVID_config [of e s w] have "config s' = config s" by simp
  with fields show ?thesis
    by (cases res) (simp_all add: renewal_tick_def Let_def)
qed

lemma time_Until_le_iff:
  "minDuration \<le> threshold \<Longrightarrow> threshold < maxDuration \<Longrightarrow>
   time_Until now t \<le> threshold \<longleftrightarrow> t - now \<le> threshold"
  by (auto simp: time_Until_def time_Sub_def)

lemma time_Until_zero_negative: "0 < now \<Longrightarrow> time_Until now 0 < 0"
  by (simp add: time_Until_def time_Sub_def maxDuration_def minDuration_def)

lemma NewSpiffeSDK_cache: "currentSVID (fst (fst (NewSpiffeSDK e cfg w))) = empty_SVIDCache"
  by (simp add: NewSpiffeSDK_def initWorkloadAPI_def Let_def split: sum.splits)

lemma Initialize_error_cache:
  "Initialize e s w = (Some err, s1, w1) \<Longrightarrow> currentSVID s1 = currentSVID s"
  apply (simp add: Initialize_def setupTLSConfig_def split: prod.splits option.splits if_splits)
  apply (auto dest!: refreshSVID_error_keeps simp: initWorkloadAPI_def Let_def split: sum.splits)
  done

lemma refresh_issuing:
  "refreshSVID env_issuing sample_sdk world0 =
     (None,
      sample_sdk\<lparr>currentSVID :=
        \<lparr>SVID = ''CERT'', PrivateKey = ''KEY'', Bundle = ''BUNDLE'',
         ExpiresAt = 63902826000 * Second, IssuedAt = 63902822400 * Second\<rparr>\<rparr>,
      world0\<lparr>sent := [lookup_request (headlessAPI sample_sdk) (Config.SPIFFEID (config sample_sdk)),
                      svid_request (headlessAPI sample_sdk) ''w-1'']\<rparr>)"
  by (simp add: refreshSVID_def get_issuing sample_svid_def)

lemma refresh_down:
  "refreshSVID env_down sample_sdk world0 =
     (Some (SendRequestFailed ''connection refused''), sample_sdk,
      world0\<lparr>sent := [lookup_request (headlessAPI sample_sdk) (Config.SPIFFEID (config sample_sdk))]\<rparr>)"
  by (simp add: refreshSVID_def GetOrRefreshSVID_def sample_sdk_eq scripted_def env_down_def
      NewRequest_def Do_def world0_def lookup_request_def)

lemma renewed_sdk_eq:
  "renewed_sdk = sample_sdk\<lparr>currentSVID :=
        \<lparr>SVID = ''CERT'', PrivateKey = ''KEY'', Bundle = ''BUNDLE'',
         ExpiresAt = 63902826000 * Second, IssuedAt = 63902822400 * Second\<rparr>\<rparr>"
  by (simp add: renewed_sdk_def refresh_issuing)

lemma due0:
  "time_Until now0 (SVIDCache.ExpiresAt (currentSVID sample_sdk))
     \<le> RenewalThreshold (config sample_sdk)"
  by (simp add: sample_sdk_eq empty_SVIDCache_def now0_def Second_def time_Until_def
      time_Sub_def maxDuration_def minDuration_def sample_config_def)

lemma not_due1:
  "\<not> time_Until now0 (SVIDCache.ExpiresAt (currentSVID renewed_sdk))
       \<le> RenewalThreshold (config renewed_sdk)"
  by (simp add: renewed_sdk_eq sample_sdk_eq now0_def Second_def time_Until_def time_Sub_def
      maxDuration_def minDuration_def sample_config_def)

lemma new_down:
  "NewSpiffeSDK env_down sample_config world0 = ((sample_sdk, None), world0\<lparr>x509_attempts := 1\<rparr>)"
  by (simp add: sample_sdk_def NewSpiffeSDK_def initWorkloadAPI_def env_down_def scripted_def
      world0_def)

lemma init_down:
  "Initialize env_down sample_sdk (world0\<lparr>x509_attempts := 1\<rparr>) =
     (Some (RegistrationFailed (SendRequestFailed ''connection refused'')), sample_sdk,
      world0\<lparr>x509_attempts := 1, sent := [register_request]\<rparr>)"
  by (simp add: Initialize_def registerWithHeadlessAPI_def RegisterAndIssueSVID_def sample_sdk_eq
      env_down_def scripted_def NewRequest_def Header_Set_def Do_def world0_def
      register_request_def)

lemma refresh_undated:
  "refreshSVID env_undated sample_sdk world0 =
     (None,
      sample_sdk\<lparr>currentSVID :=
        \<lparr>SVID = ''CERT'', PrivateKey = [], Bundle = [], ExpiresAt = 0, IssuedAt = 0\<rparr>\<rparr>,
      world0\<lparr>sent := [lookup_request (headlessAPI sample_sdk) (Config.SPIFFEID (config sample_sdk)),
                      svid_request (headlessAPI sample_sdk) ''w-1'']\<rparr>)"
  by (simp add: refreshSVID_def GetOrRefreshSVID_def issue_new_SVID_def sample_sdk_eq scripted_def
      env_undated_def NewRequest_def Do_def world0_def lookup_request_def svid_request_def
      lookup_url_def svid_url_def StatusOK_def StatusCreated_def sample_config_def
      undated_svid_def)

text \<open>
  Claim C4, as stated, fails at the first value the store holds. The claim says that
  every credential ever held, the one present before the first successful fetch included,
  has \<open>expires_at\<close> strictly greater than \<open>issued_at\<close>. The cache that \<^verbatim>\<open>NewSpiffeSDK\<close>
  creates has both at the zero time; and a refresh from an issuance response that names
  no timestamp succeeds and writes a credential with both at the zero time.
\<close>

theorem C4_zero_credential_counterexample:
  "\<not> SVIDCache.IssuedAt (currentSVID (fst (fst (NewSpiffeSDK env_down sample_config world0))))
      < SVIDCache.ExpiresAt (currentSVID (fst (fst (NewSpiffeSDK env_down sample_config world0))))
   \<and> fst (refreshSVID env_undated sample_sdk world0) = None
   \<and> \<not> SVIDCache.IssuedAt (currentSVID (fst (snd (refreshSVID env_undated sample_sdk world0))))
      < SVIDCache.ExpiresAt (currentSVID (fst (snd (refreshSVID env_undated sample_sdk world0))))"
proof -
  have first: "\<not> SVIDCache.IssuedAt
        (currentSVID (fst (fst (NewSpiffeSDK env_down sample_config world0))))
      < SVIDCache.ExpiresAt (currentSVID (fst (fst (NewSpiffeSDK env_down sample_config world0))))"
    by (simp add: new_down sample_sdk_eq empty_SVIDCache_def)
  have written: "fst (refreshSVID env_undated sample_sdk world0) = None
   \<and> \<not> SVIDCache.IssuedAt (currentSVID (fst (snd (refreshSVID env_undated sample_sdk world0))))
      < SVIDCache.ExpiresAt (currentSVID (fst (snd (refreshSVID env_undated sample_sdk world0))))"
    by (simp add: refresh_undated)
  from first written show ?thesis by (rule conjI)
qed

text \<open>
  Claim C4, amended. The cache created by \<^verbatim>\<open>NewSpiffeSDK\<close> has \<open>issued_at\<close> and
  \<open>expires_at\<close> both at the zero time. A successful refresh stores the two timestamps of
  the issuance response as they are, so that afterwards \<open>expires_at\<close> is strictly greater
  than \<open>issued_at\<close> in the cache exactly when it is so in the response.
\<close>

theorem C4_cache_holds_what_was_issued:
  "SVIDCache.IssuedAt (currentSVID (fst (fst (NewSpiffeSDK e cfg w)))) = 0
   \<and> SVIDCache.ExpiresAt (currentSVID (fst (fst (NewSpiffeSDK e cfg w)))) = 0
   \<and> (\<forall>s' w'. refreshSVID e s w0 = (None, s', w') \<longrightarrow>
        (\<exists>svid. GetOrRefreshSVID e (headlessAPI s) (Config.SPIFFEID (config s)) w0 = (Inr svid, w')
           \<and> SVIDCache.IssuedAt (currentSVID s') = SVIDResponse.IssuedAt svid
           \<and> SVIDCache.ExpiresAt (currentSVID s') = SVIDResponse.ExpiresAt svid
           \<and> (SVIDCache.IssuedAt (currentSVID s') < SVIDCache.ExpiresAt (currentSVID s')
                \<longleftrightarrow> SVIDResponse.IssuedAt svid < SVIDResponse.ExpiresAt svid)))"
  by (auto simp: NewSpiffeSDK_cache empty_SVIDCache_def refreshSVID_def
      split: sum.splits prod.splits)

text \<open>
  At the sample service, whose credential is valid for one hour: after the refresh the
  cache has the timestamps of the response, in the right order.
\<close>

theorem C4_cache_holds_what_was_issued_witness:
  "refreshSVID env_issuing sample_sdk world0 = (None, renewed_sdk,
      world0\<lparr>sent := [lookup_request (headlessAPI sample_sdk) (Config.SPIFFEID (config sample_sdk)),
                      svid_request (headlessAPI sample_sdk) ''w-1'']\<rparr>)
   \<and> SVIDCache.IssuedAt (currentSVID renewed_sdk) = SVIDResponse.IssuedAt sample_svid
   \<and> SVIDCache.ExpiresAt (currentSVID renewed_sdk) = SVIDResponse.ExpiresAt sample_svid
   \<and> SVIDCache.IssuedAt (currentSVID renewed_sdk) < SVIDCache.ExpiresAt (currentSVID renewed_sdk)"
proof -
  have r: "refreshSVID env_issuing sample_sdk world0 = (None, renewed_sdk,
      world0\<lparr>sent := [lookup_request (headlessAPI sample_sdk) (Config.SPIFFEID (config sample_sdk)),
                      svid_request (headlessAPI sample_sdk) ''w-1'']\<rparr>)"
    by (simp add: renewed_sdk_eq refresh_issuing)
  have lt: "SVIDResponse.IssuedAt sample_svid < SVIDResponse.ExpiresAt sample_svid"
    by (simp add: sample_svid_def Second_def)
  show ?thesis
    using r lt get_issuing
      C4_cache_holds_what_was_issued [of env_issuing sample_config world0 sample_sdk world0]
    by simp
qed

text \<open>
  Claim C6. On a tick, let the time to expiry be the duration that \<^verbatim>\<open>time.Until\<close>
  returns for the cached expiry. If it is at most the renewal threshold, the tick is one
  call of \<^verbatim>\<open>refreshSVID\<close> followed by one printed line; if it exceeds the threshold, the
  tick changes nothing and sends nothing. In either case the tick sends at most one
  lookup request and, after it, at most one issuance request. The loop runs this body
  once for each tick it receives, and so does \<^verbatim>\<open>startAutoRenewal\<close> whenever its ticker
  exists, that is for a positive check interval. For a threshold below the largest
  duration, the test on the duration is the test on the exact difference between the
  expiry and the clock.
\<close>

theorem C6_one_attempt_per_due_tick:
  "(time_Until now (SVIDCache.ExpiresAt (currentSVID s)) \<le> RenewalThreshold (config s) \<longrightarrow>
      renewal_tick e now s w = report (refreshSVID e s w)
      \<and> length (printed (snd (renewal_tick e now s w))) = Suc (length (printed w)))
   \<and> (\<not> time_Until now (SVIDCache.ExpiresAt (currentSVID s)) \<le> RenewalThreshold (config s) \<longrightarrow>
      renewal_tick e now s w = (s, w))
   \<and> (\<exists>new. sent (snd (renewal_tick e now s w)) = sent w @ new \<and>
         (new = [] \<or> new = [lookup_request (headlessAPI s) (Config.SPIFFEID (config s))]
          \<or> (\<exists>wid. new = [lookup_request (headlessAPI s) (Config.SPIFFEID (config s)),
                            svid_request (headlessAPI s) wid])))
   \<and> renewal_loop e (Tick now # evs) s w =
       renewal_loop e evs (fst (renewal_tick e now s w)) (snd (renewal_tick e now s w))
   \<and> (0 < CheckInterval (config s) \<longrightarrow>
        startAutoRenewal e (Tick now # evs) s w =
          startAutoRenewal e evs (fst (renewal_tick e now s w)) (snd (renewal_tick e now s w)))
   \<and> (minDuration \<le> RenewalThreshold (config s) \<and> RenewalThreshold (config s) < maxDuration \<longrightarrow>
        (time_Until now (SVIDCache.ExpiresAt (currentSVID s)) \<le> RenewalThreshold (config s)
          \<longleftrightarrow> SVIDCache.ExpiresAt (currentSVID s) - now \<le> RenewalThreshold (config s)))"
proof -
  have exact: "minDuration \<le> RenewalThreshold (config s) \<and> RenewalThreshold (config s) < maxDuration \<longrightarrow>
        (time_Until now (SVIDCache.ExpiresAt (currentSVID s)) \<le> RenewalThreshold (config s)
          \<longleftrightarrow> SVIDCache.ExpiresAt (currentSVID s) - now \<le> RenewalThreshold (config s))"
    using time_Until_le_iff [of "RenewalThreshold (config s)" now
        "SVIDCache.ExpiresAt (currentSVID s)"] by blast
  have loop0: "renewal_loop e (Tick now # evs) s w =
       renewal_loop e evs (fst (renewal_tick e now s w)) (snd (renewal_tick e now s w))"
    by (cases "renewal_tick e now s w") simp
  have loop1: "0 < CheckInterval (config s) \<longrightarrow>
        startAutoRenewal e (Tick now # evs) s w =
          startAutoRenewal e evs (fst (renewal_tick e now s w)) (snd (renewal_tick e now s w))"
    using loop0 by (simp add: startAutoRenewal_def renewal_tick_config)
  note loop = loop0 loop1
  show ?thesis
  proof (cases "time_Until now (SVIDCache.ExpiresAt (currentSVID s)) \<le> RenewalThreshold (config s)")
    case True
    then have eq: "renewal_tick e now s w = report (refreshSVID e s w)"
      by (rule renewal_tick_due)
    have "length (printed (snd (renewal_tick e now s w))) = Suc (length (printed w))"
      by (simp add: eq report_printed refreshSVID_printed)
    moreover have "sent (snd (renewal_tick e now s w)) = sent (snd (snd (refreshSVID e s w)))"
      by (simp add: eq report_sent)
    ultimately have "(time_Until now (SVIDCache.ExpiresAt (currentSVID s)) \<le> RenewalThreshold (config s) \<longrightarrow>
      renewal_tick e now s w = report (refreshSVID e s w)
      \<and> length (printed (snd (renewal_tick e now s w))) = Suc (length (printed w)))
   \<and> (\<not> time_Until now (SVIDCache.ExpiresAt (currentSVID s)) \<le> RenewalThreshold (config s) \<longrightarrow>
      renewal_tick e now s w = (s, w))
   \<and> (\<exists>new. sent (snd (renewal_tick e now s w)) = sent w @ new \<and>
         (new = [] \<or> new = [lookup_request (headlessAPI s) (Config.SPIFFEID (config s))]
          \<or> (\<exists>wid. new = [lookup_request (headlessAPI s) (Config.SPIFFEID (config s)),
                            svid_request (headlessAPI s) wid])))"
      using True eq refreshSVID_sent [of e s w] by simp
    with loop exact show ?thesis by blast
  next
    case False
    then have "renewal_tick e now s w = (s, w)"
      by (rule renewal_tick_not_due)
    with False have "(time_Until now (SVIDCache.ExpiresAt (currentSVID s)) \<le> RenewalThreshold (config s) \<longrightarrow>
      renewal_tick e now s w = report (refreshSVID e s w)
      \<and> length (printed (snd (renewal_tick e now s w))) = Suc (length (printed w)))
   \<and> (\<not> time_Until now (SVIDCache.ExpiresAt (currentSVID s)) \<le> RenewalThreshold (config s) \<longrightarrow>
      renewal_tick e now s w = (s, w))
   \<and> (\<exists>new. sent (snd (renewal_tick e now s w)) = sent w @ new \<and>
         (new = [] \<or> new = [lookup_request (headlessAPI s) (Config.SPIFFEID (config s))]
          \<or> (\<exists>wid. new = [lookup_request (headlessAPI s) (Config.SPIFFEID (config s)),
                            svid_request (headlessAPI s) wid])))"
      by simp
    with loop exact show ?thesis by blast
  qed
qed

text \<open>
  At the sample service: with the empty cache the tick is due and is one refresh; with
  the credential just issued, valid for an hour against a threshold of five minutes, the
  tick does nothing.
\<close>

theorem C6_one_attempt_per_due_tick_witness:
  "time_Until now0 (SVIDCache.ExpiresAt (currentSVID sample_sdk))
     \<le> RenewalThreshold (config sample_sdk)
   \<and> renewal_tick env_issuing now0 sample_sdk world0 =
       report (refreshSVID env_issuing sample_sdk world0)
   \<and> length (printed (snd (renewal_tick env_issuing now0 sample_sdk world0))) =
       Suc (length (printed world0))
   \<and> \<not> time_Until now0 (SVIDCache.ExpiresAt (currentSVID renewed_sdk))
         \<le> RenewalThreshold (config renewed_sdk)
   \<and> renewal_tick env_issuing now0 renewed_sdk world0 = (renewed_sdk, world0)
   \<and> \<not> SVIDCache.ExpiresAt (currentSVID renewed_sdk) - now0 \<le> RenewalThreshold (config renewed_sdk)
   \<and> 0 < CheckInterval (config renewed_sdk)
   \<and> startAutoRenewal env_issuing [Tick now0] renewed_sdk world0 = (Waiting, renewed_sdk, world0)"
proof -
  have thr: "minDuration \<le> RenewalThreshold (config renewed_sdk)
      \<and> RenewalThreshold (config renewed_sdk) < maxDuration"
    by (simp add: renewed_sdk_eq sample_sdk_eq sample_config_def Second_def minDuration_def
        maxDuration_def)
  have pos: "0 < CheckInterval (config renewed_sdk)"
    by (simp add: renewed_sdk_eq sample_sdk_eq sample_config_def Second_def)
  have idle: "renewal_tick env_issuing now0 renewed_sdk world0 = (renewed_sdk, world0)"
    using not_due1 C6_one_attempt_per_due_tick [of now0 renewed_sdk env_issuing world0 "[]"]
    by blast
  have "startAutoRenewal env_issuing [Tick now0] renewed_sdk world0 =
      startAutoRenewal env_issuing [] renewed_sdk world0"
    using pos idle C6_one_attempt_per_due_tick [of now0 renewed_sdk env_issuing world0 "[]"]
    by simp
  then have run: "startAutoRenewal env_issuing [Tick now0] renewed_sdk world0 =
      (Waiting, renewed_sdk, world0)"
    using pos by (simp add: startAutoRenewal_def)
  from thr pos run due0 not_due1
    C6_one_attempt_per_due_tick [of now0 sample_sdk env_issuing world0 "[]"]
    C6_one_attempt_per_due_tick [of now0 renewed_sdk env_issuing world0 "[]"]
  show ?thesis by blast
qed

text \<open>
  Claim C7. When a tick is due and its call of \<^verbatim>\<open>refreshSVID\<close> returns an error, the SDK
  state after the tick is the state before it, so no field of the cached credential has
  changed; the error is printed as a renewal failure; and the loop goes on with the
  events that follow, from that state. The loop has no error result, and without the end
  of the context among the later events it does not return. The same holds of
  \<^verbatim>\<open>startAutoRenewal\<close> whenever its ticker exists, that is for a positive check
  interval: it neither returns nor panics on the failure.
\<close>

theorem C7_failed_renewal_keeps_credential:
  assumes "time_Until now (SVIDCache.ExpiresAt (currentSVID s)) \<le> RenewalThreshold (config s)"
    and "refreshSVID e s w = (Some err, s1, w1)"
  shows "s1 = s
    \<and> renewal_tick e now s w = (s, w1\<lparr>printed := printed w1 @ [RenewalFailedLine err]\<rparr>)
    \<and> currentSVID (fst (renewal_tick e now s w)) = currentSVID s
    \<and> renewal_loop e (Tick now # evs) s w =
        renewal_loop e evs s (w1\<lparr>printed := printed w1 @ [RenewalFailedLine err]\<rparr>)
    \<and> (CtxDone \<notin> set evs \<longrightarrow> fst (renewal_loop e (Tick now # evs) s w) = Waiting)
    \<and> (0 < CheckInterval (config s) \<longrightarrow>
         startAutoRenewal e (Tick now # evs) s w =
           startAutoRenewal e evs s (w1\<lparr>printed := printed w1 @ [RenewalFailedLine err]\<rparr>)
         \<and> (CtxDone \<notin> set evs \<longrightarrow> fst (startAutoRenewal e (Tick now # evs) s w) = Waiting))"
proof -
  have s1: "s1 = s" using assms(2) by (rule refreshSVID_error_keeps)
  have tick: "renewal_tick e now s w = (s, w1\<lparr>printed := printed w1 @ [RenewalFailedLine err]\<rparr>)"
    using assms s1 by (simp add: renewal_tick_def)
  have loop: "renewal_loop e (Tick now # evs) s w =
        renewal_loop e evs s (w1\<lparr>printed := printed w1 @ [RenewalFailedLine err]\<rparr>)
    \<and> (CtxDone \<notin> set evs \<longrightarrow> fst (renewal_loop e (Tick now # evs) s w) = Waiting)"
    using tick renewal_loop_status [of e "Tick now # evs" s w] by simp
  have ticking: "0 < CheckInterval (config s) \<longrightarrow>
         startAutoRenewal e (Tick now # evs) s w =
           startAutoRenewal e evs s (w1\<lparr>printed := printed w1 @ [RenewalFailedLine err]\<rparr>)
         \<and> (CtxDone \<notin> set evs \<longrightarrow> fst (startAutoRenewal e (Tick now # evs) s w) = Waiting)"
  proof
    assume pos: "0 < CheckInterval (config s)"
    show "startAutoRenewal e (Tick now # evs) s w =
           startAutoRenewal e evs s (w1\<lparr>printed := printed w1 @ [RenewalFailedLine err]\<rparr>)
         \<and> (CtxDone \<notin> set evs \<longrightarrow> fst (startAutoRenewal e (Tick now # evs) s w) = Waiting)"
      unfolding startAutoRenewal_ticking [OF pos] by (rule loop)
  qed
  have cache: "currentSVID (fst (renewal_tick e now s w)) = currentSVID s"
    using tick by simp
  from s1 tick cache loop ticking show ?thesis by blast
qed

text \<open>
  At a service that refuses the connection: the lookup fails, the cache stays as it was,
  and the loop waits for the tick after the next one.
\<close>

theorem C7_failed_renewal_keeps_credential_witness:
  "time_Until now0 (SVIDCache.ExpiresAt (currentSVID sample_sdk))
     \<le> RenewalThreshold (config sample_sdk)
   \<and> refreshSVID env_down sample_sdk world0 =
       (Some (SendRequestFailed ''connection refused''), sample_sdk,
        world0\<lparr>sent := [lookup_request (headlessAPI sample_sdk) (Config.SPIFFEID (config sample_sdk))]\<rparr>)
   \<and> currentSVID (fst (renewal_tick env_down now0 sample_sdk world0)) = currentSVID sample_sdk
   \<and> fst (startAutoRenewal env_down [Tick now0, Tick (now0 + 60 * Second)] sample_sdk world0)
       = Waiting"
proof -
  have "CtxDone \<notin> set [Tick (now0 + 60 * Second)]" by simp
  moreover have "0 < CheckInterval (config sample_sdk)"
    by (simp add: sample_sdk_eq sample_config_def Second_def)
  ultimately show ?thesis
    using due0 refresh_down
      C7_failed_renewal_keeps_credential [OF due0 refresh_down, of "[Tick (now0 + 60 * Second)]"]
    by blast
qed

text \<open>
  Claim C9. The SDK that \<^verbatim>\<open>NewSpiffeSDK\<close> returns has the empty string as its current
  SVID and the zero time as \<open>issued_at\<close> and as \<open>expires_at\<close> of its cache, and for a
  clock after the zero time the time to expiry computed from it is negative. The same
  holds after an \<^verbatim>\<open>Initialize\<close> that returns an error, be it from the registration or
  from the first fetch.
\<close>

theorem C9_zero_credential_before_first_fetch:
  "GetCurrentSVID (fst (fst (NewSpiffeSDK e cfg w))) = []
   \<and> SVIDCache.IssuedAt (currentSVID (fst (fst (NewSpiffeSDK e cfg w)))) = 0
   \<and> SVIDCache.ExpiresAt (currentSVID (fst (fst (NewSpiffeSDK e cfg w)))) = 0
   \<and> (0 < now \<longrightarrow>
        time_Until now (SVIDCache.ExpiresAt (currentSVID (fst (fst (NewSpiffeSDK e cfg w))))) < 0)
   \<and> (\<forall>err s1 w1.
        Initialize e (fst (fst (NewSpiffeSDK e cfg w))) (snd (NewSpiffeSDK e cfg w))
          = (Some err, s1, w1)
        \<longrightarrow> GetCurrentSVID s1 = []
          \<and> SVIDCache.IssuedAt (currentSVID s1) = 0 \<and> SVIDCache.ExpiresAt (currentSVID s1) = 0
          \<and> (0 < now \<longrightarrow> time_Until now (SVIDCache.ExpiresAt (currentSVID s1)) < 0))"
  using time_Until_zero_negative [of now]
  by (auto simp: GetCurrentSVID_def NewSpiffeSDK_cache empty_SVIDCache_def
      dest!: Initialize_error_cache)

text \<open>
  At a service that refuses the connection, \<^verbatim>\<open>Initialize\<close> fails at the registration,
  and the cache is still empty.
\<close>

theorem C9_zero_credential_before_first_fetch_witness:
  "0 < now0
   \<and> time_Until now0
       (SVIDCache.ExpiresAt (currentSVID (fst (fst (NewSpiffeSDK env_down sample_config world0))))) < 0
   \<and> Initialize env_down (fst (fst (NewSpiffeSDK env_down sample_config world0)))
        (snd (NewSpiffeSDK env_down sample_config world0)) =
       (Some (RegistrationFailed (SendRequestFailed ''connection refused'')), sample_sdk,
        world0\<lparr>x509_attempts := 1, sent := [register_request]\<rparr>)
   \<and> GetCurrentSVID sample_sdk = []"
proof -
  have pos: "0 < now0" by (simp add: now0_def Second_def)
  have init: "Initialize env_down (fst (fst (NewSpiffeSDK env_down sample_config world0)))
        (snd (NewSpiffeSDK env_down sample_config world0)) =
       (Some (RegistrationFailed (SendRequestFailed ''connection refused'')), sample_sdk,
        world0\<lparr>x509_attempts := 1, sent := [register_request]\<rparr>)"
    by (simp only: new_down fst_conv snd_conv init_down)
  show ?thesis
    using pos init
      C9_zero_credential_before_first_fetch [of env_down sample_config world0 now0]
    by blast
qed

subsection \<open>Validation of incoming requests\<close>

lemma validate_valid:
  \<open>ValidateIncomingSVID env_valid sample_sdk (certToPEM env_valid \<lparr>Raw = ''DER''\<rparr>) world0
    = (Inr (sample_result True ''spiffe://authsec.dev/peer''),
       world0\<lparr>sent := [verify_request]\<rparr>)\<close>
  by (simp add: ValidateIncomingSVID_def VerifyCertificate_def sample_sdk_eq scripted_def
      env_valid_def NewRequest_def Header_Set_def Do_def world0_def verify_request_def
      certToPEM_def)

lemma validate_down:
  \<open>ValidateIncomingSVID env_down sample_sdk (certToPEM env_down \<lparr>Raw = ''DER''\<rparr>) world0
    = (Inl (SendRequestFailed ''connection refused''), world0\<lparr>sent := [verify_request]\<rparr>)\<close>
  by (simp add: ValidateIncomingSVID_def VerifyCertificate_def sample_sdk_eq scripted_def
      env_down_def NewRequest_def Header_Set_def Do_def world0_def verify_request_def
      certToPEM_def)

text \<open>
  Claim C1. For a request that presents at least one peer certificate, let the
  verification of the first one return \<open>res\<close>. If \<open>res\<close> is a result without error and
  with \<open>Valid\<close> set, the middleware leaves through the wrapped handler, with the request
  whose context binds \<open>spiffe_id\<close> to the identity of the result. In every other case,
  an error or a result that is not valid, the middleware answers
  \<open>Invalid client certificate\<close> with status 401 and its answer does not depend on the
  wrapped handler, which is not called.
\<close>

theorem C1_validation_fail_closed:
  assumes "TLS r = Some cs" and "PeerCertificates cs = clientCert # more_certs"
    and "ValidateIncomingSVID e s (certToPEM e clientCert) w = (res, w')"
  shows "(\<forall>result. res = Inr result \<and> Valid result \<longrightarrow>
            middleware_exit e s r w =
              (Serve (r\<lparr>Context := (''spiffe_id'', ValidationResult.SPIFFEID result) # Context r\<rparr>), w')
          \<and> Context_Value
               (r\<lparr>Context := (''spiffe_id'', ValidationResult.SPIFFEID result) # Context r\<rparr>)
               ''spiffe_id'' = Some (ValidationResult.SPIFFEID result)
          \<and> IncomingValidationMiddleware e s http_Error next r rw w =
              next (r\<lparr>Context := (''spiffe_id'', ValidationResult.SPIFFEID result) # Context r\<rparr>)
                rw w')
       \<and> (\<not> (\<exists>result. res = Inr result \<and> Valid result) \<longrightarrow>
            middleware_exit e s r w = (Reject ''Invalid client certificate'' 401, w')
          \<and> IncomingValidationMiddleware e s http_Error next r rw w =
              (http_Error ''Invalid client certificate'' 401 rw, w'))"
  using assms
  by (cases res)
     (auto simp: middleware_exit_def IncomingValidationMiddleware_def Context_Value_def
        StatusUnauthorized_def)

text \<open>
  At a request with one certificate: the service that answers \<open>valid\<close> lets it through
  with the identity of the peer, and the service that refuses the connection has it
  rejected.
\<close>

theorem C1_validation_fail_closed_witness:
  "TLS sample_inbound = Some \<lparr>PeerCertificates = [\<lparr>Raw = ''DER''\<rparr>]\<rparr>
   \<and> middleware_exit env_valid sample_sdk sample_inbound world0 =
       (Serve (sample_inbound\<lparr>Context := [(''spiffe_id'', ''spiffe://authsec.dev/peer'')]\<rparr>),
        world0\<lparr>sent := [verify_request]\<rparr>)
   \<and> middleware_exit env_down sample_sdk sample_inbound world0 =
       (Reject ''Invalid client certificate'' 401, world0\<lparr>sent := [verify_request]\<rparr>)"
proof -
  have t: "TLS sample_inbound = Some \<lparr>PeerCertificates = [\<lparr>Raw = ''DER''\<rparr>]\<rparr>"
    by (simp add: sample_inbound_def)
  have c: "PeerCertificates \<lparr>PeerCertificates = [\<lparr>Raw = ''DER''\<rparr>]\<rparr> = \<lparr>Raw = ''DER''\<rparr> # []"
    by simp
  have ctx: "Context sample_inbound = []" by (simp add: sample_inbound_def)
  show ?thesis
    using t ctx
      C1_validation_fail_closed [OF t c validate_valid,
        where http_Error = "\<lambda>msg code rw. (code, msg)"
        and ?next = "\<lambda>r rw w. (rw, w)" and rw = "(200, [])"]
      C1_validation_fail_closed [OF t c validate_down,
        where http_Error = "\<lambda>msg code rw. (code, msg)"
        and ?next = "\<lambda>r rw w. (rw, w)" and rw = "(200, [])"]
    by (simp add: sample_result_def)
qed

text \<open>
  Claim C5. For a request without TLS state, or with TLS state and an empty list of peer
  certificates, the middleware leaves through the wrapped handler with the request as it
  came, its context included, and with the world as it was: nothing has been sent. The
  equation holds for every environment, also one in which a verification would fail, so
  no verification takes part in it.
\<close>

theorem C5_no_certificate_passes_through:
  "TLS r = None \<or> (\<exists>cs. TLS r = Some cs \<and> PeerCertificates cs = []) \<Longrightarrow>
   middleware_exit e s r w = (Serve r, w) \<and>
   IncomingValidationMiddleware e s http_Error next r rw w = next r rw w"
  by (auto simp: middleware_exit_def IncomingValidationMiddleware_def)

text \<open>
  At a request over a plain connection and a service that refuses every connection: the
  request passes.
\<close>

theorem C5_no_certificate_passes_through_witness:
  "TLS \<lparr>TLS = None, Context = []\<rparr> = None
   \<and> middleware_exit env_down sample_sdk \<lparr>TLS = None, Context = []\<rparr> world0
       = (Serve \<lparr>TLS = None, Context = []\<rparr>, world0)"
  using C5_no_certificate_passes_through [where r = "\<lparr>TLS = None, Context = []\<rparr>"
      and e = env_down and s = sample_sdk and w = world0
      and http_Error = "\<lambda>msg code rw. (code, msg)"
      and ?next = "\<lambda>r rw w. (rw, w)" and rw = "(200, [])"]
  by simp

subsection \<open>The outgoing middleware\<close>










end
